theory Spec2Isabelle
  imports Complex_Main "HOL-Library.Multiset"
begin

section \<open>Filter engine: \<open>src/hooks/useCamera.js\<close>\<close>

text \<open>
  The pixel buffer is the \<open>data\<close> array of an \<open>ImageData\<close> object: a
  \<open>Uint8ClampedArray\<close> holding the channels R, G, B, A of each pixel in turn. It is
  modelled as a list of integers. Arithmetic on JavaScript numbers is modelled by exact
  rational arithmetic; the decimal constants of the source are the rationals they denote.
\<close>

type_synonym pixel_data = "int list"

text \<open>The helper \<open>clamp\<close> of \<open>applyPixelFilter\<close>.\<close>

definition clamp :: "rat \<Rightarrow> rat" where
  "clamp v = (if v < 0 then 0 else if v > 255 then 255 else v)"

text \<open>
  Storing a number into an element of a \<open>Uint8ClampedArray\<close>: the value is clamped to
  \<open>[0, 255]\<close> and rounded to the nearest integer, a tie going to the even neighbour.
\<close>

definition to_uint8_clamped :: "rat \<Rightarrow> int" where
  "to_uint8_clamped v =
     (if v \<le> 0 then 0
      else if v \<ge> 255 then 255
      else (let f = \<lfloor>v\<rfloor> in
            if of_int f + 1 / 2 < v then f + 1
            else if v < of_int f + 1 / 2 then f
            else if even f then f else f + 1))"

text \<open>The values an element of the buffer can hold.\<close>

definition byte :: "int \<Rightarrow> bool" where
  "byte x = (0 \<le> x \<and> x \<le> 255)"

text \<open>The body of each per-filter loop, as a function of the three channels read.\<close>

definition mono_px :: "rat \<times> rat \<times> rat \<Rightarrow> rat \<times> rat \<times> rat" where
  "mono_px p = (case p of (r, g, b) \<Rightarrow>
     (let gray = r * 0.299 + g * 0.587 + b * 0.114;
          contrasted = (gray - 128) * 1.1 + 128;
          final = clamp contrasted
      in (final, final, final)))"

definition warm_px :: "rat \<times> rat \<times> rat \<Rightarrow> rat \<times> rat \<times> rat" where
  "warm_px p = (case p of (r0, g0, b0) \<Rightarrow>
     (let gray = (r0 + g0 + b0) / 3;
          r1 = gray + (r0 - gray) * 1.15;
          g1 = gray + (g0 - gray) * 1.1;
          b1 = gray + (b0 - gray) * 0.9;
          r2 = r1 + 15;
          g2 = g1 + 8;
          b2 = b1 - 20;
          r3 = r2 * 1.08;
          g3 = g2 * 1.05;
          b3 = b2 * 1.0
      in (clamp r3, clamp g3, clamp b3)))"

definition cool_px :: "rat \<times> rat \<times> rat \<Rightarrow> rat \<times> rat \<times> rat" where
  "cool_px p = (case p of (r0, g0, b0) \<Rightarrow>
     (let gray = (r0 + g0 + b0) / 3;
          r1 = gray + (r0 - gray) * 0.9;
          g1 = gray + (g0 - gray) * 1.0;
          b1 = gray + (b0 - gray) * 1.1;
          r2 = r1 - 10;
          g2 = g1 + 5;
          b2 = b1 + 20;
          r3 = r2 * 1.02;
          g3 = g2 * 1.05;
          b3 = b2 * 1.08
      in (clamp r3, clamp g3, clamp b3)))"

definition vibrant_px :: "rat \<times> rat \<times> rat \<Rightarrow> rat \<times> rat \<times> rat" where
  "vibrant_px p = (case p of (r0, g0, b0) \<Rightarrow>
     (let gray = (r0 + g0 + b0) / 3;
          r1 = gray + (r0 - gray) * 1.5;
          g1 = gray + (g0 - gray) * 1.5;
          b1 = gray + (b0 - gray) * 1.5;
          r2 = (r1 - 128) * 1.1 + 128;
          g2 = (g1 - 128) * 1.1 + 128;
          b2 = (b1 - 128) * 1.1 + 128;
          r3 = r2 * 1.03;
          g3 = g2 * 1.03;
          b3 = b2 * 1.03
      in (clamp r3, clamp g3, clamp b3)))"

definition vintage_px :: "rat \<times> rat \<times> rat \<Rightarrow> rat \<times> rat \<times> rat" where
  "vintage_px p = (case p of (r0, g0, b0) \<Rightarrow>
     (let gray = (r0 + g0 + b0) / 3;
          r1 = gray + (r0 - gray) * 0.7;
          g1 = gray + (g0 - gray) * 0.7;
          b1 = gray + (b0 - gray) * 0.7;
          r2 = r1 * 1.1 + 10;
          g2 = g1 * 1.0 + 5;
          b2 = b1 * 0.85 - 5;
          r3 = (r2 - 128) * 0.85 + 128;
          g3 = (g2 - 128) * 0.85 + 128;
          b3 = (b2 - 128) * 0.85 + 128;
          r4 = r3 + 15;
          g4 = g3 + 10;
          b4 = b3 + 5
      in (clamp r4, clamp g4, clamp b4)))"

text \<open>
  The loop \<open>for (let i = 0; i < len; i += 4)\<close> shared by the five filter cases. An
  iteration reads \<open>data[i]\<close>, \<open>data[i + 1]\<close>, \<open>data[i + 2]\<close>, then writes the three
  channels back; \<open>data[i + 3]\<close> (alpha) is not touched.

  The length of an \<open>ImageData\<close> buffer is a multiple of four, so the three reads are in
  range whenever \<open>i < len\<close>. For any other length the last reads are past the end: they
  give \<open>undefined\<close>, every filter's arithmetic then gives \<open>NaN\<close> in all three channels
  (\<open>clamp\<close> returns \<open>NaN\<close> unchanged), a \<open>NaN\<close> is stored as \<open>0\<close>, and a write
  past the end is ignored, as \<open>list_update\<close> does.
\<close>

function pixel_loop ::
  "(rat \<times> rat \<times> rat \<Rightarrow> rat \<times> rat \<times> rat) \<Rightarrow> nat \<Rightarrow> pixel_data \<Rightarrow> pixel_data" where
  "pixel_loop f i data =
     (if i < length data then
        (if i + 2 < length data then
           (case f (of_int (data ! i), of_int (data ! (i + 1)), of_int (data ! (i + 2))) of
              (r, g, b) \<Rightarrow>
                pixel_loop f (i + 4)
                  (data[i := to_uint8_clamped r, i + 1 := to_uint8_clamped g,
                        i + 2 := to_uint8_clamped b]))
         else pixel_loop f (i + 4) (data[i := 0, i + 1 := 0, i + 2 := 0]))
      else data)"
  by pat_completeness auto
termination
  by (relation "measure (\<lambda>(f, i, data). length data - i)") auto

declare pixel_loop.simps [simp del]

text \<open>The \<open>switch (filterName)\<close> of \<open>applyPixelFilter\<close>.\<close>

definition applyPixelFilter :: "pixel_data \<Rightarrow> string \<Rightarrow> pixel_data" where
  "applyPixelFilter data filterName =
     (if filterName = ''mono'' then pixel_loop mono_px 0 data
      else if filterName = ''warm'' then pixel_loop warm_px 0 data
      else if filterName = ''cool'' then pixel_loop cool_px 0 data
      else if filterName = ''vibrant'' then pixel_loop vibrant_px 0 data
      else if filterName = ''vintage'' then pixel_loop vintage_px 0 data
      else data)"

text \<open>The table \<open>FILTER_STYLES\<close>: the CSS filter string of the live preview.\<close>

definition FILTER_STYLES :: "string \<Rightarrow> string option" where
  "FILTER_STYLES =
     [''original'' \<mapsto> ''none'',
      ''warm'' \<mapsto> ''sepia(0.3) saturate(1.4) brightness(1.1)'',
      ''cool'' \<mapsto> ''saturate(0.9) hue-rotate(10deg) brightness(1.05)'',
      ''vibrant'' \<mapsto> ''saturate(1.6) contrast(1.1) brightness(1.05)'',
      ''vintage'' \<mapsto> ''sepia(0.4) contrast(0.9) brightness(0.95) saturate(0.8)'',
      ''pastel'' \<mapsto> ''saturate(0.7) brightness(1.15) contrast(0.9)'',
      ''mono'' \<mapsto> ''grayscale(1) contrast(1.1)'',
      ''soft'' \<mapsto> ''brightness(1.08) contrast(0.92) saturate(0.95)'',
      ''crisp'' \<mapsto> ''contrast(1.15) saturate(1.1) brightness(1.02)'',
      ''fade'' \<mapsto> ''contrast(0.85) saturate(0.75) brightness(1.1)'']"


subsection \<open>\<open>captureFrame\<close>: the filter is applied to a copy of the canvas pixels\<close>

text \<open>
  \<open>captureFrame\<close> draws the video frame on the canvas, and then, unless the selected
  filter is \<open>original\<close>, runs inside \<open>try\<close>: \<open>getImageData\<close> (a copy of the canvas
  pixels), \<open>applyPixelFilter\<close> on that copy, \<open>putImageData\<close> of the copy. The
  \<open>catch\<close> block logs a warning and goes on. Each of the three calls may throw; where and
  whether one does is a parameter of the model. A throw of the transform at the iteration
  with index \<open>k\<close> leaves the copy as the iterations before it made it.
\<close>

datatype fault = NoFault | GetImageDataThrows | FilterThrowsAt nat | PutImageDataThrows

function pixel_loop_faulting ::
  "nat option \<Rightarrow> (rat \<times> rat \<times> rat \<Rightarrow> rat \<times> rat \<times> rat) \<Rightarrow> nat \<Rightarrow> pixel_data
     \<Rightarrow> pixel_data + pixel_data" where
  "pixel_loop_faulting k f i data =
     (if i < length data then
        (if k = Some i then Inl data
         else if i + 2 < length data then
           (case f (of_int (data ! i), of_int (data ! (i + 1)), of_int (data ! (i + 2))) of
              (r, g, b) \<Rightarrow>
                pixel_loop_faulting k f (i + 4)
                  (data[i := to_uint8_clamped r, i + 1 := to_uint8_clamped g,
                        i + 2 := to_uint8_clamped b]))
         else pixel_loop_faulting k f (i + 4) (data[i := 0, i + 1 := 0, i + 2 := 0]))
      else Inr data)"
  by pat_completeness auto
termination
  by (relation "measure (\<lambda>(k, f, i, data). length data - i)") auto

declare pixel_loop_faulting.simps [simp del]

definition applyPixelFilter_faulting ::
  "nat option \<Rightarrow> pixel_data \<Rightarrow> string \<Rightarrow> pixel_data + pixel_data" where
  "applyPixelFilter_faulting k data filterName =
     (if filterName = ''mono'' then pixel_loop_faulting k mono_px 0 data
      else if filterName = ''warm'' then pixel_loop_faulting k warm_px 0 data
      else if filterName = ''cool'' then pixel_loop_faulting k cool_px 0 data
      else if filterName = ''vibrant'' then pixel_loop_faulting k vibrant_px 0 data
      else if filterName = ''vintage'' then pixel_loop_faulting k vintage_px 0 data
      else Inr data)"

text \<open>
  The state of a capture: the pixels of the canvas, the local buffer \<open>imageData\<close> (absent
  until \<open>getImageData\<close> has returned), and whether the \<open>catch\<close> block has run.
\<close>

record capture_state =
  canvas :: pixel_data
  imageData :: "pixel_data option"
  warned :: bool

definition capture_filter_step :: "fault \<Rightarrow> string \<Rightarrow> pixel_data \<Rightarrow> capture_state" where
  "capture_filter_step flt selectedFilter frame =
     (let s0 = \<lparr>canvas = frame, imageData = None, warned = False\<rparr> in
      if selectedFilter \<noteq> ''original'' then
        (if flt = GetImageDataThrows then s0\<lparr>warned := True\<rparr>
         else
           (let s1 = s0\<lparr>imageData := Some (canvas s0)\<rparr> in
            case applyPixelFilter_faulting
                   (case flt of FilterThrowsAt k \<Rightarrow> Some k | _ \<Rightarrow> None)
                   (canvas s0) selectedFilter of
              Inl partial \<Rightarrow> s1\<lparr>imageData := Some partial, warned := True\<rparr>
            | Inr filtered \<Rightarrow>
                (let s2 = s1\<lparr>imageData := Some filtered\<rparr> in
                 if flt = PutImageDataThrows then s2\<lparr>warned := True\<rparr>
                 else s2\<lparr>canvas := filtered\<rparr>)))
      else s0)"


section \<open>JavaScript numbers\<close>

text \<open>
  The composition engine divides by a value that may be zero or \<open>undefined\<close>, so its
  numbers are modelled with the special values of IEEE arithmetic: \<open>NaN\<close>, the two
  infinities (\<open>Infinity True\<close> is \<open>+Infinity\<close>), and the finite numbers, which are taken
  as exact rationals. The sign of zero is not modelled: \<open>Fin 0\<close> stands for \<open>+0\<close>.
\<close>

datatype jsnum = NaN | Infinity bool | Fin rat

fun jmul :: "jsnum \<Rightarrow> jsnum \<Rightarrow> jsnum" where
  "jmul (Fin a) (Fin b) = Fin (a * b)"
| "jmul (Fin a) (Infinity s) = (if a = 0 then NaN else Infinity (s = (0 < a)))"
| "jmul (Infinity s) (Fin b) = (if b = 0 then NaN else Infinity (s = (0 < b)))"
| "jmul (Infinity s) (Infinity t) = Infinity (s = t)"
| "jmul _ _ = NaN"

fun jdiv :: "jsnum \<Rightarrow> jsnum \<Rightarrow> jsnum" where
  "jdiv (Fin a) (Fin b) =
     (if b = 0 then (if a = 0 then NaN else Infinity (0 < a)) else Fin (a / b))"
| "jdiv (Fin a) (Infinity s) = Fin 0"
| "jdiv (Infinity s) (Fin b) = Infinity (s = (0 \<le> b))"
| "jdiv _ _ = NaN"

fun jadd :: "jsnum \<Rightarrow> jsnum \<Rightarrow> jsnum" where
  "jadd (Fin a) (Fin b) = Fin (a + b)"
| "jadd (Fin a) (Infinity s) = Infinity s"
| "jadd (Infinity s) (Fin b) = Infinity s"
| "jadd (Infinity s) (Infinity t) = (if s = t then Infinity s else NaN)"
| "jadd _ _ = NaN"

fun jneg :: "jsnum \<Rightarrow> jsnum" where
  "jneg (Fin a) = Fin (- a)"
| "jneg (Infinity s) = Infinity (\<not> s)"
| "jneg NaN = NaN"

definition jsub :: "jsnum \<Rightarrow> jsnum \<Rightarrow> jsnum" where
  "jsub a b = jadd a (jneg b)"

text \<open>\<open>ToNumber\<close> of a value that is a number or \<open>undefined\<close> (\<open>None\<close>).\<close>

fun ToNumber :: "jsnum option \<Rightarrow> jsnum" where
  "ToNumber None = NaN"
| "ToNumber (Some n) = n"

text \<open>\<open>ToBoolean\<close> of a number: \<open>NaN\<close> and zero are falsy.\<close>

fun truthy :: "jsnum \<Rightarrow> bool" where
  "truthy NaN = False"
| "truthy (Infinity s) = True"
| "truthy (Fin a) = (a \<noteq> 0)"

text \<open>\<open>v || d\<close> for a string that may be \<open>undefined\<close>: the empty string is falsy.\<close>

fun str_or :: "string option \<Rightarrow> string \<Rightarrow> string" where
  "str_or None d = d"
| "str_or (Some s) d = (if s = [] then d else s)"

section \<open>Composition engine: \<open>src/utils/ExportEngine.js\<close>\<close>

subsection \<open>Data\<close>

record point =
  pt_x :: jsnum
  pt_y :: jsnum

record stroke =
  stroke_id :: string
  stroke_color :: string
  stroke_size :: string
  stroke_points :: "point list"

text \<open>Fields that the source reads with \<open>?.\<close> or \<open>||\<close> may be \<open>undefined\<close>.\<close>

record text_style =
  st_fontId :: "string option"
  st_color :: "string option"
  st_textAlign :: "string option"
  st_styleMode :: "string option"

record element_data =
  d_stickerId :: "string option"
  d_emojiChar :: "string option"
  d_text :: "string option"
  d_style :: "text_style option"

record element =
  el_id :: string
  el_type :: string
  el_x :: jsnum
  el_y :: jsnum
  el_scale :: jsnum
  el_rotation :: jsnum
  el_data :: "element_data option"

text \<open>
  The 2D context is modelled by the calls made on it, in order: property assignments and
  drawing calls alike. \<open>Rotate_deg r\<close> is \<open>ctx.rotate((r * Math.PI) / 180)\<close>, kept by its
  argument in degrees; \<open>Set_font w s f\<close> is the assignment of the template string made
  of the weight \<open>w\<close> (when there is one), the size \<open>s\<close> in pixels and the family \<open>f\<close>.
\<close>

datatype canvas_call =
    DrawImage_base jsnum jsnum
  | BeginPath
  | MoveTo jsnum jsnum
  | LineTo jsnum jsnum
  | Stroke
  | Fill
  | Save
  | Restore
  | ClearRect jsnum jsnum jsnum jsnum
  | Scale jsnum jsnum
  | Translate jsnum jsnum
  | Rotate_deg jsnum
  | Set_strokeStyle string
  | Set_fillStyle string
  | Set_lineWidth jsnum
  | Set_lineCap string
  | Set_lineJoin string
  | Set_font "string option" jsnum string
  | Set_textAlign string
  | Set_textBaseline string
  | Set_shadowColor string
  | Set_shadowBlur jsnum
  | Set_shadowOffsetX jsnum
  | Set_shadowOffsetY jsnum
  | FillRect jsnum jsnum jsnum jsnum
  | StrokeRect jsnum jsnum jsnum jsnum
  | RoundRect jsnum jsnum jsnum jsnum jsnum
  | FillText string jsnum jsnum
  | StrokeText string jsnum jsnum

type_synonym ctx = "canvas_call list"

subsection \<open>Tables\<close>

text \<open>
  The tables are object literals. Each is modelled by its own entries; a read
  \<open>table[key]\<close> finds an own entry first and otherwise, for the names below, the member
  that every object inherits from \<open>Object.prototype\<close>: a function, or for \<open>__proto__\<close>
  the prototype object itself.
\<close>

definition Object_prototype_keys :: "string list" where
  "Object_prototype_keys =
     [''constructor'', ''__defineGetter__'', ''__defineSetter__'', ''hasOwnProperty'',
      ''__lookupGetter__'', ''__lookupSetter__'', ''isPrototypeOf'',
      ''propertyIsEnumerable'', ''toString'', ''valueOf'', ''__proto__'',
      ''toLocaleString'']"

definition ExportEngine_BRUSH_SIZES :: "string \<Rightarrow> jsnum option" where
  "ExportEngine_BRUSH_SIZES = [''small'' \<mapsto> Fin 4, ''medium'' \<mapsto> Fin 8]"

definition FONTS :: "string \<Rightarrow> string option" where
  "FONTS =
     [''classic'' \<mapsto> ''-apple-system, BlinkMacSystemFont, sans-serif'',
      ''bold'' \<mapsto> ''-apple-system, BlinkMacSystemFont, sans-serif'',
      ''serif'' \<mapsto> ''Georgia, Times New Roman, serif'',
      ''mono'' \<mapsto> ''SF Mono, Menlo, monospace'',
      ''condensed'' \<mapsto> ''Arial Narrow, sans-serif'',
      ''script'' \<mapsto> ''Snell Roundhand, cursive'']"

text \<open>
  \<open>v || fallback\<close> for a value that is a number or \<open>undefined\<close>. It serves for
  \<open>window.devicePixelRatio || 1\<close> and for the read \<open>BRUSH_SIZES.small\<close> of an own
  entry.
\<close>

definition num_or :: "jsnum option \<Rightarrow> jsnum \<Rightarrow> jsnum" where
  "num_or v d = (case v of None \<Rightarrow> d | Some n \<Rightarrow> if truthy n then n else d)"

text \<open>
  \<open>table[key] || fallback\<close> for a table of numbers and a key that comes from the data,
  the result being used as a number. An own entry is kept when it is truthy. An inherited
  member is an object, hence truthy, so \<open>||\<close> keeps it; as a number it is \<open>NaN\<close>. A
  name that is neither reads as \<open>undefined\<close> and gives the fallback.
\<close>

definition table_or :: "(string \<Rightarrow> jsnum option) \<Rightarrow> string \<Rightarrow> jsnum \<Rightarrow> jsnum" where
  "table_or table key d =
     (case table key of
        Some n \<Rightarrow> if truthy n then n else d
      | None \<Rightarrow> if key \<in> set Object_prototype_keys then NaN else d)"

text \<open>
  The read \<open>FONTS[style.fontId]\<close> in \<open>drawText\<close> is modelled on the own entries only:
  for a font id that is one of the inherited names the source builds the font string from
  the text of a function, which differs between browsers; such font ids are left out.
\<close>

subsection \<open>\<open>drawStrokes\<close>\<close>

text \<open>
  The \<open>for\<close> loop of \<open>lineTo\<close> calls; it runs over the points from index 1 on.
\<close>

definition lineTos :: "point list \<Rightarrow> jsnum \<Rightarrow> canvas_call list" where
  "lineTos ps scale = map (\<lambda>p. LineTo (jmul (pt_x p) scale) (jmul (pt_y p) scale)) ps"

text \<open>The callback of \<open>strokes.forEach\<close>: a stroke with fewer than two points returns at once.\<close>

definition drawStroke :: "jsnum \<Rightarrow> stroke \<Rightarrow> ctx \<Rightarrow> ctx" where
  "drawStroke scale stroke c =
     (if length (stroke_points stroke) < 2 then c
      else
        c @
        [BeginPath,
         Set_strokeStyle (stroke_color stroke),
         Set_lineWidth
           (jmul (table_or ExportEngine_BRUSH_SIZES (stroke_size stroke)
                    (num_or (ExportEngine_BRUSH_SIZES ''small'') NaN)) scale),
         Set_lineCap ''round'',
         Set_lineJoin ''round'',
         MoveTo (jmul (pt_x (stroke_points stroke ! 0)) scale)
                (jmul (pt_y (stroke_points stroke ! 0)) scale)]
        @ lineTos (drop 1 (stroke_points stroke)) scale
        @ [Stroke])"

text \<open>A stroke that can be rendered has at least two points.\<close>

definition renderable :: "stroke \<Rightarrow> bool" where
  "renderable stroke = (2 \<le> length (stroke_points stroke))"

definition drawStrokes :: "ctx \<Rightarrow> stroke list \<Rightarrow> jsnum \<Rightarrow> ctx" where
  "drawStrokes c strokes scale = fold (drawStroke scale) strokes c"

subsection \<open>\<open>drawSticker\<close>, \<open>drawEmoji\<close>, \<open>drawText\<close>\<close>

definition drawSticker :: "ctx \<Rightarrow> element \<Rightarrow> jsnum \<Rightarrow> ctx" where
  "drawSticker c element scale =
     (let x = jmul (el_x element) scale;
          y = jmul (el_y element) scale;
          size = jmul (jmul (Fin 80) (el_scale element)) scale
      in c @
        [Save,
         Translate x y,
         Rotate_deg (el_rotation element),
         Set_fillStyle ''rgba(255, 255, 255, 0.2)'',
         FillRect (jdiv (jneg size) (Fin 2)) (jdiv (jneg size) (Fin 2)) size size,
         Set_strokeStyle ''rgba(255, 255, 255, 0.5)'',
         Set_lineWidth (jmul (Fin 2) scale),
         StrokeRect (jdiv (jneg size) (Fin 2)) (jdiv (jneg size) (Fin 2)) size size,
         Set_fillStyle ''#fff'',
         Set_font None (jmul (Fin 12) scale) ''-apple-system, sans-serif'',
         Set_textAlign ''center'',
         Set_textBaseline ''middle'',
         FillText
           (str_or (case el_data element of None \<Rightarrow> None | Some d \<Rightarrow> d_stickerId d)
              ''sticker'')
           (Fin 0) (Fin 0),
         Restore])"

text \<open>The default emoji is U+1F60A, written here as its four UTF-8 bytes.\<close>

definition default_emoji :: string where
  "default_emoji = [CHR 0xF0, CHR 0x9F, CHR 0x98, CHR 0x8A]"

definition drawEmoji :: "ctx \<Rightarrow> element \<Rightarrow> jsnum \<Rightarrow> ctx" where
  "drawEmoji c element scale =
     (let x = jmul (el_x element) scale;
          y = jmul (el_y element) scale;
          fontSize = jmul (jmul (Fin 48) (el_scale element)) scale
      in c @
        [Save,
         Translate x y,
         Rotate_deg (el_rotation element),
         Set_font None fontSize ''-apple-system, sans-serif'',
         Set_textAlign ''center'',
         Set_textBaseline ''middle'',
         FillText
           (str_or (case el_data element of None \<Rightarrow> None | Some d \<Rightarrow> d_emojiChar d)
              default_emoji)
           (Fin 0) (Fin 0),
         Restore])"

text \<open>
  \<open>drawText\<close>. \<open>measureText\<close> is the browser's: it is a parameter, a function of the
  font in force (weight, size, family) and of the text; its result stands for
  \<open>metrics.width\<close>. \<open>style\<close> is
  \<open>element.data?.style || {}\<close>: without a style every field is \<open>undefined\<close>.
\<close>

definition empty_style :: text_style where
  "empty_style =
     \<lparr>st_fontId = None, st_color = None, st_textAlign = None, st_styleMode = None\<rparr>"

type_synonym measure_fn = "string \<Rightarrow> jsnum \<Rightarrow> string \<Rightarrow> string \<Rightarrow> jsnum"

definition drawText :: "measure_fn \<Rightarrow> ctx \<Rightarrow> element \<Rightarrow> jsnum \<Rightarrow> ctx" where
  "drawText measureText c element scale =
     (let x = jmul (el_x element) scale;
          y = jmul (el_y element) scale;
          style = (case el_data element of None \<Rightarrow> empty_style
                   | Some d \<Rightarrow> (case d_style d of None \<Rightarrow> empty_style | Some st \<Rightarrow> st));
          text = str_or (case el_data element of None \<Rightarrow> None | Some d \<Rightarrow> d_text d) [];
          fontFamily =
            str_or (case st_fontId style of None \<Rightarrow> None | Some fid \<Rightarrow> FONTS fid)
              (str_or (FONTS ''classic'') []);
          fontWeight = (if st_fontId style = Some ''bold'' then ''700'' else ''400'');
          fontSize = jmul (jmul (Fin 24) (el_scale element)) scale;
          color = str_or (st_color style) ''#fff'';
          c1 = c @
            [Save,
             Translate x y,
             Rotate_deg (el_rotation element),
             Set_font (Some fontWeight) fontSize fontFamily,
             Set_textAlign (str_or (st_textAlign style) ''center''),
             Set_textBaseline ''middle''];
          textWidth = measureText fontWeight fontSize fontFamily text;
          textHeight = jmul fontSize (Fin 1.2);
          c2 =
            (if st_styleMode style = Some ''stroke'' then
               c1 @
               [Set_strokeStyle color,
                Set_lineWidth (jmul (Fin 2) scale),
                StrokeText text (Fin 0) (Fin 0)]
             else if st_styleMode style = Some ''background'' then
               (let padding = jmul (Fin 8) scale in
                c1 @
                [Set_fillStyle color,
                 BeginPath,
                 RoundRect
                   (jsub (jdiv (jneg textWidth) (Fin 2)) padding)
                   (jdiv (jneg textHeight) (Fin 2))
                   (jadd textWidth (jmul padding (Fin 2)))
                   textHeight
                   (jmul (Fin 4) scale),
                 Fill,
                 Set_fillStyle
                   (if color = ''#FFFFFF'' \<or> color = ''#FFCC00'' then ''#000'' else ''#FFF''),
                 FillText text (Fin 0) (Fin 0)])
             else if st_styleMode style = Some ''highlight'' then
               (let padding = jmul (Fin 12) scale in
                c1 @
                [Set_fillStyle color,
                 BeginPath,
                 RoundRect
                   (jsub (jdiv (jneg textWidth) (Fin 2)) padding)
                   (jsub (jdiv (jneg textHeight) (Fin 2)) (jdiv padding (Fin 2)))
                   (jadd textWidth (jmul padding (Fin 2)))
                   (jadd textHeight padding)
                   (jmul (Fin 8) scale),
                 Fill,
                 Set_fillStyle
                   (if color = ''#FFFFFF'' \<or> color = ''#FFCC00'' then ''#000'' else ''#FFF''),
                 FillText text (Fin 0) (Fin 0)])
             else
               c1 @
               [Set_shadowColor ''rgba(0, 0, 0, 0.5)'',
                Set_shadowBlur (jmul (Fin 3) scale),
                Set_shadowOffsetX (Fin 0),
                Set_shadowOffsetY (jmul (Fin 1) scale),
                Set_fillStyle color,
                FillText text (Fin 0) (Fin 0)])
      in c2 @ [Restore])"

subsection \<open>\<open>exportImage\<close>\<close>

text \<open>
  \<open>const dpr = width / displayWidth || 1\<close>. \<open>width\<close> is the width of the base canvas, a
  non-negative integer; \<open>displayWidth\<close> is whatever the caller passed, a number or
  \<open>undefined\<close>.
\<close>

definition exportImage_dpr :: "nat \<Rightarrow> jsnum option \<Rightarrow> jsnum" where
  "exportImage_dpr width displayWidth =
     (let q = jdiv (Fin (of_nat width)) (ToNumber displayWidth)
      in if truthy q then q else Fin 1)"

text \<open>The comparison function given to \<open>sort\<close>.\<close>

definition type_order :: "string \<Rightarrow> jsnum option" where
  "type_order = [''sticker'' \<mapsto> Fin 0, ''emoji'' \<mapsto> Fin 1, ''text'' \<mapsto> Fin 2]"

definition compare_elements :: "element \<Rightarrow> element \<Rightarrow> jsnum" where
  "compare_elements a b =
     jsub (table_or type_order (el_type a) (Fin 0)) (table_or type_order (el_type b) (Fin 0))"

text \<open>
  \<open>Array.prototype.sort\<close> with a comparison function is stable: of two elements, the
  later one moves in front of the earlier one only when the function says the earlier one
  is greater (a positive result; \<open>NaN\<close> counts as zero). For a consistent comparison
  function every stable sort gives the same array; it is modelled by insertion from the
  right. Where the function is not consistent (it returns \<open>NaN\<close> for an element whose
  type is an inherited name) the order is up to the browser, and the model is one
  possible browser.
\<close>

fun positive :: "jsnum \<Rightarrow> bool" where
  "positive NaN = False"
| "positive (Infinity s) = s"
| "positive (Fin a) = (0 < a)"

fun sort_insert :: "('a \<Rightarrow> 'a \<Rightarrow> jsnum) \<Rightarrow> 'a \<Rightarrow> 'a list \<Rightarrow> 'a list" where
  "sort_insert cmp x [] = [x]"
| "sort_insert cmp x (y # ys) =
     (if positive (cmp x y) then y # sort_insert cmp x ys else x # y # ys)"

definition Array_sort :: "('a \<Rightarrow> 'a \<Rightarrow> jsnum) \<Rightarrow> 'a list \<Rightarrow> 'a list" where
  "Array_sort cmp xs = foldr (sort_insert cmp) xs []"

definition sortedElements :: "element list \<Rightarrow> element list" where
  "sortedElements elements = Array_sort compare_elements elements"

text \<open>
  The priority of a type: the entry of the table \<open>order\<close>, and \<open>0\<close> for a type that
  is not in it. It is what \<open>order[type] || 0\<close> gives for every type but the inherited
  names.
\<close>

definition type_priority :: "element \<Rightarrow> rat" where
  "type_priority e =
     (if el_type e = ''sticker'' then 0
      else if el_type e = ''emoji'' then 1
      else if el_type e = ''text'' then 2
      else 0)"

text \<open>The callback of \<open>sortedElements.forEach\<close>.\<close>

definition drawElement :: "measure_fn \<Rightarrow> jsnum \<Rightarrow> element \<Rightarrow> ctx \<Rightarrow> ctx" where
  "drawElement measureText scale element c =
     (if el_type element = ''sticker'' then drawSticker c element scale
      else if el_type element = ''emoji'' then drawEmoji c element scale
      else if el_type element = ''text'' then drawText measureText c element scale
      else c)"

text \<open>
  The promise returned by \<open>exportImage\<close> is modelled by the calls its executor makes on
  \<open>resolve\<close> and \<open>reject\<close>. The value given to \<open>resolve\<close> holds the data URL and
  the variable \<open>blob\<close>, which the browser sets to a \<open>Blob\<close> or to \<open>null\<close> (\<open>None\<close>).
\<close>

type_synonym blob = "nat list"



text \<open>
  The browser: text measurement and the two PNG encoders of the export canvas, each a
  function of what was drawn on it. \<open>toBlob\<close> calls its callback once, with the blob or
  with \<open>null\<close>.
\<close>

record browser =
  measureText :: measure_fn
  toDataURL :: "ctx \<Rightarrow> string"
  toBlob :: "ctx \<Rightarrow> blob option"

record composition_request =
  base_width :: nat
  base_height :: nat
  req_strokes :: "stroke list"
  req_elements :: "element list"
  displayWidth :: "jsnum option"
  displayHeight :: "jsnum option"

text \<open>The calls made on the context of the export canvas.\<close>

definition exportImage_ctx :: "browser \<Rightarrow> composition_request \<Rightarrow> ctx" where
  "exportImage_ctx br req =
     (let dpr = exportImage_dpr (base_width req) (displayWidth req);
          scale = dpr;
          c0 = [DrawImage_base (Fin 0) (Fin 0)];
          c1 = (if length (req_strokes req) > 0 then drawStrokes c0 (req_strokes req) scale
                else c0)
      in fold (drawElement (measureText br) scale) (sortedElements (req_elements req)) c1)"




section \<open>The drawing tool: \<open>DrawTool.jsx\<close>\<close>

definition DrawTool_BRUSH_SIZES :: "string \<Rightarrow> jsnum option" where
  "DrawTool_BRUSH_SIZES = [''small'' \<mapsto> Fin 4, ''medium'' \<mapsto> Fin 16]"

text \<open>
  The state of the component together with the \<open>strokes\<close> state of its parent, which it
  reads as a prop and replaces through \<open>onStrokesChange\<close>.
\<close>

record draw_tool =
  dt_isDrawing :: bool
  dt_currentStroke :: "stroke option"
  dt_strokeColor :: string
  dt_brushSize :: string
  dt_strokes :: "stroke list"

definition draw_tool_init :: draw_tool where
  "draw_tool_init =
     \<lparr>dt_isDrawing = False, dt_currentStroke = None, dt_strokeColor = ''#FFFFFF'',
      dt_brushSize = ''small'', dt_strokes = []\<rparr>"

text \<open>\<open>e.touches && e.touches.length > 1\<close>, for an event with or without \<open>touches\<close>.\<close>

definition multi_touch :: "nat option \<Rightarrow> bool" where
  "multi_touch touches = (case touches of None \<Rightarrow> False | Some n \<Rightarrow> n > 1)"

text \<open>
  The handlers. \<open>isActive\<close> is the prop of that name; \<open>pos\<close> is the result of
  \<open>getPosition(e)\<close>, \<open>null\<close> without a canvas; \<open>now\<close> is \<open>Date.now()\<close> in decimal.
\<close>

definition handleDrawStart ::
  "bool \<Rightarrow> nat option \<Rightarrow> point option \<Rightarrow> string \<Rightarrow> draw_tool \<Rightarrow> draw_tool" where
  "handleDrawStart isActive touches pos now s =
     (if \<not> isActive then s
      else if multi_touch touches then s
      else case pos of
        None \<Rightarrow> s
      | Some p \<Rightarrow>
          s\<lparr>dt_isDrawing := True,
            dt_currentStroke :=
              Some \<lparr>stroke_id = ''stroke-'' @ now, stroke_color = dt_strokeColor s,
                    stroke_size = dt_brushSize s, stroke_points = [p]\<rparr>\<rparr>)"

definition handleDrawMove ::
  "bool \<Rightarrow> nat option \<Rightarrow> point option \<Rightarrow> draw_tool \<Rightarrow> draw_tool" where
  "handleDrawMove isActive touches pos s =
     (if \<not> dt_isDrawing s \<or> \<not> isActive then s
      else if multi_touch touches then s\<lparr>dt_isDrawing := False, dt_currentStroke := None\<rparr>
      else case pos of
        None \<Rightarrow> s
      | Some p \<Rightarrow>
          s\<lparr>dt_currentStroke :=
              (case dt_currentStroke s of
                 None \<Rightarrow> None
               | Some prev \<Rightarrow> Some (prev\<lparr>stroke_points := stroke_points prev @ [p]\<rparr>))\<rparr>)"

definition handleDrawEnd :: "draw_tool \<Rightarrow> draw_tool" where
  "handleDrawEnd s =
     (case dt_currentStroke s of
        None \<Rightarrow> s\<lparr>dt_isDrawing := False\<rparr>
      | Some currentStroke \<Rightarrow>
          if \<not> dt_isDrawing s then s\<lparr>dt_isDrawing := False\<rparr>
          else
            (let s1 = (if length (stroke_points currentStroke) \<ge> 2
                       then s\<lparr>dt_strokes := dt_strokes s @ [currentStroke]\<rparr> else s)
             in s1\<lparr>dt_currentStroke := None, dt_isDrawing := False\<rparr>))"

definition handleUndo :: "draw_tool \<Rightarrow> draw_tool" where
  "handleUndo s =
     (if length (dt_strokes s) > 0 then s\<lparr>dt_strokes := butlast (dt_strokes s)\<rparr> else s)"

definition handleClear :: "draw_tool \<Rightarrow> draw_tool" where
  "handleClear s = s\<lparr>dt_strokes := []\<rparr>"

definition handleToggleBrushSize :: "draw_tool \<Rightarrow> draw_tool" where
  "handleToggleBrushSize s =
     s\<lparr>dt_brushSize := (if dt_brushSize s = ''small'' then ''medium'' else ''small'')\<rparr>"

definition handleDone :: "draw_tool \<Rightarrow> draw_tool" where
  "handleDone s =
     (let finalStrokes =
            (case dt_currentStroke s of
               None \<Rightarrow> dt_strokes s
             | Some currentStroke \<Rightarrow>
                 if length (stroke_points currentStroke) \<ge> 2
                 then dt_strokes s @ [currentStroke] else dt_strokes s)
      in s\<lparr>dt_strokes := finalStrokes, dt_currentStroke := None, dt_isDrawing := False,
           dt_strokeColor := ''#FFFFFF'', dt_brushSize := ''small''\<rparr>)"

text \<open>What can happen to the tool, and a run of such events from the initial state.\<close>

datatype draw_event =
    DrawStart bool "nat option" "point option" string
  | DrawMove bool "nat option" "point option"
  | DrawEnd
  | Undo
  | Clear
  | ToggleBrushSize
  | SetStrokeColor string
  | Done

fun draw_step :: "draw_event \<Rightarrow> draw_tool \<Rightarrow> draw_tool" where
  "draw_step (DrawStart isActive touches pos now) s = handleDrawStart isActive touches pos now s"
| "draw_step (DrawMove isActive touches pos) s = handleDrawMove isActive touches pos s"
| "draw_step DrawEnd s = handleDrawEnd s"
| "draw_step Undo s = handleUndo s"
| "draw_step Clear s = handleClear s"
| "draw_step ToggleBrushSize s = handleToggleBrushSize s"
| "draw_step (SetStrokeColor c) s = s\<lparr>dt_strokeColor := c\<rparr>"
| "draw_step Done s = handleDone s"

definition draw_run :: "draw_event list \<Rightarrow> draw_tool" where
  "draw_run evs = fold draw_step evs draw_tool_init"

text \<open>
  \<open>redrawCanvas\<close>: the live rendering of the saved strokes and of the stroke being
  drawn. \<open>dpr\<close> is \<open>window.devicePixelRatio\<close>, which may be missing.
\<close>

definition live_stroke :: "stroke \<Rightarrow> ctx \<Rightarrow> ctx" where
  "live_stroke stroke c =
     (if length (stroke_points stroke) < 2 then c
      else
        c @
        [BeginPath,
         Set_strokeStyle (stroke_color stroke),
         Set_lineWidth
           (table_or DrawTool_BRUSH_SIZES (stroke_size stroke)
              (num_or (DrawTool_BRUSH_SIZES ''small'') NaN)),
         Set_lineCap ''round'',
         Set_lineJoin ''round'',
         MoveTo (pt_x (stroke_points stroke ! 0)) (pt_y (stroke_points stroke ! 0))]
        @ map (\<lambda>p. LineTo (pt_x p) (pt_y p)) (drop 1 (stroke_points stroke))
        @ [Stroke])"

definition redrawCanvas :: "jsnum \<Rightarrow> jsnum \<Rightarrow> jsnum option \<Rightarrow> draw_tool \<Rightarrow> ctx \<Rightarrow> ctx" where
  "redrawCanvas canvas_width canvas_height devicePixelRatio s c =
     (let dpr = num_or devicePixelRatio (Fin 1);
          c1 = c @ [ClearRect (Fin 0) (Fin 0) canvas_width canvas_height, Save, Scale dpr dpr];
          c2 = fold live_stroke (dt_strokes s) c1;
          c3 = (case dt_currentStroke s of None \<Rightarrow> c2
                | Some currentStroke \<Rightarrow> live_stroke currentStroke c2)
      in c3 @ [Restore])"

section \<open>Reading a trace\<close>

text \<open>
  The fill style in force at each \<open>fillText\<close> call of a trace: \<open>cur\<close> is the current
  fill style, \<open>stk\<close> the fill styles saved by \<open>save\<close>.
\<close>

fun fill_inks :: "string \<Rightarrow> string list \<Rightarrow> ctx \<Rightarrow> (string \<times> string) list" where
  "fill_inks cur stk [] = []"
| "fill_inks cur stk (Set_fillStyle s # cs) = fill_inks s stk cs"
| "fill_inks cur stk (Save # cs) = fill_inks cur (cur # stk) cs"
| "fill_inks cur stk (Restore # cs) =
     (case stk of [] \<Rightarrow> fill_inks cur [] cs | t # ts \<Rightarrow> fill_inks t ts cs)"
| "fill_inks cur stk (FillText t x y # cs) = (t, cur) # fill_inks cur stk cs"
| "fill_inks cur stk (_ # cs) = fill_inks cur stk cs"

text \<open>The line widths set in a trace, in order.\<close>

fun line_widths :: "ctx \<Rightarrow> jsnum list" where
  "line_widths [] = []"
| "line_widths (Set_lineWidth w # cs) = w # line_widths cs"
| "line_widths (_ # cs) = line_widths cs"

section \<open>Example inputs\<close>

text \<open>
  A request after the end-to-end example of the specification: a base raster of
  100 by 100, one red stroke along the diagonal, one text element \<open>Hi\<close> at the centre;
  and elements of the three types, a one-point stroke, and two browsers, one whose PNG
  encoder works and one whose encoder fails.
\<close>

definition example_stroke :: stroke where
  "example_stroke =
     \<lparr>stroke_id = ''stroke-1'', stroke_color = ''#FF0000'', stroke_size = ''small'',
      stroke_points = [\<lparr>pt_x = Fin 10, pt_y = Fin 10\<rparr>, \<lparr>pt_x = Fin 90, pt_y = Fin 90\<rparr>]\<rparr>"

definition example_dot :: stroke where
  "example_dot =
     \<lparr>stroke_id = ''stroke-2'', stroke_color = ''#FFFFFF'', stroke_size = ''medium'',
      stroke_points = [\<lparr>pt_x = Fin 50, pt_y = Fin 50\<rparr>]\<rparr>"

definition example_text :: "string \<Rightarrow> string \<Rightarrow> element" where
  "example_text color styleMode =
     \<lparr>el_id = ''text-1'', el_type = ''text'', el_x = Fin 50, el_y = Fin 50, el_scale = Fin 1,
      el_rotation = Fin 0,
      el_data = Some \<lparr>d_stickerId = None, d_emojiChar = None, d_text = Some ''Hi'',
        d_style = Some \<lparr>st_fontId = Some ''classic'', st_color = Some color,
                        st_textAlign = None, st_styleMode = Some styleMode\<rparr>\<rparr>\<rparr>"

definition example_sticker :: element where
  "example_sticker =
     \<lparr>el_id = ''sticker-1'', el_type = ''sticker'', el_x = Fin 20, el_y = Fin 30,
      el_scale = Fin 1, el_rotation = Fin 0,
      el_data = Some \<lparr>d_stickerId = Some ''sticker_01'', d_emojiChar = None, d_text = None,
                      d_style = None\<rparr>\<rparr>"

definition example_emoji :: element where
  "example_emoji =
     \<lparr>el_id = ''emoji-1'', el_type = ''emoji'', el_x = Fin 70, el_y = Fin 30,
      el_scale = Fin 1, el_rotation = Fin 0,
      el_data = Some \<lparr>d_stickerId = None, d_emojiChar = Some '':)'', d_text = None,
                      d_style = None\<rparr>\<rparr>"


definition working_browser :: browser where
  "working_browser =
     \<lparr>measureText = (\<lambda>weight size family text. Fin (of_nat (12 * length text))),
      toDataURL = (\<lambda>c. ''data:image/png;base64,iVBORw0KGgo=''),
      toBlob = (\<lambda>c. Some [137, 80, 78, 71, 13, 10, 26, 10])\<rparr>"


text \<open>
  A request with a one-point stroke before the diagonal and no elements; an element whose
  type is an inherited name; a browser whose \<open>toDataURL\<close> could not serialise the canvas
  (it then returns \<open>data:,\<close>) while its \<open>toBlob\<close> could; and a browser that hands
  over a blob without content.
\<close>

definition strokes_only_request :: composition_request where
  "strokes_only_request =
     \<lparr>base_width = 100, base_height = 100, req_strokes = [example_dot, example_stroke],
      req_elements = [], displayWidth = Some (Fin 100), displayHeight = Some (Fin 100)\<rparr>"

definition example_odd_element :: element where
  "example_odd_element =
     \<lparr>el_id = ''odd-1'', el_type = ''constructor'', el_x = Fin 0, el_y = Fin 0,
      el_scale = Fin 1, el_rotation = Fin 0, el_data = None\<rparr>"



definition layered_request :: composition_request where
  "layered_request =
     \<lparr>base_width = 100, base_height = 100, req_strokes = [example_stroke],
      req_elements = [example_text ''#FFFFFF'' ''none'', example_sticker, example_emoji],
      displayWidth = Some (Fin 100), displayHeight = Some (Fin 100)\<rparr>"

section \<open>Properties of the filter engine\<close>

subsection \<open>Range of the stored channels\<close>

lemma clamp_range: "0 \<le> clamp v \<and> clamp v \<le> 255"
  by (simp add: clamp_def)

lemma to_uint8_clamped_range: "byte (to_uint8_clamped v)"
proof -
  have "0 \<le> \<lfloor>v\<rfloor> \<and> \<lfloor>v\<rfloor> \<le> 254" if "0 < v" "v < 255"
  proof -
    have "\<lfloor>v\<rfloor> < 255" using that(2) by (simp add: floor_less_iff)
    moreover have "0 \<le> \<lfloor>v\<rfloor>" using that(1) by simp
    ultimately show ?thesis by simp
  qed
  then show ?thesis
    by (auto simp: to_uint8_clamped_def byte_def Let_def not_le)
qed

lemma list_all_update: "list_all P xs \<Longrightarrow> P v \<Longrightarrow> list_all P (xs[i := v])"
  by (induction xs arbitrary: i) (auto split: nat.splits)

lemma byte_0: "byte 0"
  by (simp add: byte_def)

lemma pixel_loop_range: "list_all byte data \<Longrightarrow> list_all byte (pixel_loop f i data)"
proof (induction f i data rule: pixel_loop.induct)
  case (1 f i data)
  show ?case
  proof (cases "i < length data")
    case False
    then show ?thesis using "1.prems" by (simp add: pixel_loop.simps[of f i data])
  next
    case True
    show ?thesis
    proof (cases "i + 2 < length data")
      case in_range: True
      obtain r g b where
        px: "f (of_int (data ! i), of_int (data ! (i + 1)), of_int (data ! (i + 2))) = (r, g, b)"
        by (cases "f (of_int (data ! i), of_int (data ! (i + 1)), of_int (data ! (i + 2)))") auto
      have "list_all byte
              (data[i := to_uint8_clamped r, i + 1 := to_uint8_clamped g,
                    i + 2 := to_uint8_clamped b])"
        using "1.prems" by (intro list_all_update to_uint8_clamped_range)
      then have "list_all byte
              (pixel_loop f (i + 4)
                 (data[i := to_uint8_clamped r, i + 1 := to_uint8_clamped g,
                       i + 2 := to_uint8_clamped b]))"
        using "1.IH"(1)[OF True in_range px[symmetric] refl] by simp
      then show ?thesis using True in_range px by (simp add: pixel_loop.simps[of f i data])
    next
      case ragged: False
      have "list_all byte (data[i := 0, i + 1 := 0, i + 2 := 0])"
        using "1.prems" by (intro list_all_update byte_0)
      then have "list_all byte (pixel_loop f (i + 4) (data[i := 0, i + 1 := 0, i + 2 := 0]))"
        using "1.IH"(2)[OF True ragged] by simp
      then show ?thesis using True ragged by (simp add: pixel_loop.simps[of f i data])
    qed
  qed
qed

lemma pixel_loop_length: "length (pixel_loop f i data) = length data"
proof (induction f i data rule: pixel_loop.induct)
  case (1 f i data)
  show ?case
    using "1.IH" by (subst pixel_loop.simps) (auto split: prod.splits)
qed

lemma px_clamped:
  "f \<in> {mono_px, warm_px, cool_px, vibrant_px, vintage_px} \<Longrightarrow> f p = (r, g, b) \<Longrightarrow>
   0 \<le> r \<and> r \<le> 255 \<and> 0 \<le> g \<and> g \<le> 255 \<and> 0 \<le> b \<and> b \<le> 255"
  using clamp_range
  by (auto simp: mono_px_def warm_px_def cool_px_def vibrant_px_def vintage_px_def Let_def
           split: prod.splits)

text \<open>
  Claim C7. Whatever the filter name, a buffer whose channels all lie in \<open>[0, 255]\<close> is
  turned into a buffer of the same length whose channels all lie in \<open>[0, 255]\<close>. The
  range is reached twice over: every value that a filter hands to the buffer has already
  been through \<open>clamp\<close>, and so lies in \<open>[0, 255]\<close> before it is rounded; and the store
  into the buffer clamps again.
\<close>

theorem filter_channels_in_range:
  assumes "list_all byte data"
  shows "list_all byte (applyPixelFilter data filterName) \<and>
         length (applyPixelFilter data filterName) = length data \<and>
         (\<forall>f \<in> {mono_px, warm_px, cool_px, vibrant_px, vintage_px}. \<forall>p.
            case f p of (r, g, b) \<Rightarrow>
              0 \<le> r \<and> r \<le> 255 \<and> 0 \<le> g \<and> g \<le> 255 \<and> 0 \<le> b \<and> b \<le> 255)"
proof (intro conjI)
  show "list_all byte (applyPixelFilter data filterName)"
    using assms by (simp add: applyPixelFilter_def pixel_loop_range)
  show "length (applyPixelFilter data filterName) = length data"
    by (simp add: applyPixelFilter_def pixel_loop_length)
  show "\<forall>f \<in> {mono_px, warm_px, cool_px, vibrant_px, vintage_px}. \<forall>p.
          case f p of (r, g, b) \<Rightarrow>
            0 \<le> r \<and> r \<le> 255 \<and> 0 \<le> g \<and> g \<le> 255 \<and> 0 \<le> b \<and> b \<le> 255"
  proof (intro ballI allI)
    fix f :: "rat \<times> rat \<times> rat \<Rightarrow> rat \<times> rat \<times> rat" and p
    assume f: "f \<in> {mono_px, warm_px, cool_px, vibrant_px, vintage_px}"
    obtain r g b where "f p = (r, g, b)" by (cases "f p") auto
    with px_clamped[OF f this] show "case f p of (r, g, b) \<Rightarrow>
        0 \<le> r \<and> r \<le> 255 \<and> 0 \<le> g \<and> g \<le> 255 \<and> 0 \<le> b \<and> b \<le> 255"
      by simp
  qed
qed

text \<open>A white pixel and a black pixel under \<open>vibrant\<close> and \<open>vintage\<close>.\<close>

theorem filter_channels_in_range_witness:
  "list_all byte [255, 255, 255, 255, 0, 0, 0, 255] \<and>
   list_all byte (applyPixelFilter [255, 255, 255, 255, 0, 0, 0, 255] ''vibrant'') \<and>
   list_all byte (applyPixelFilter [255, 255, 255, 255, 0, 0, 0, 255] ''vintage'') \<and>
   applyPixelFilter [255, 255, 255, 255, 0, 0, 0, 255] ''vibrant''
     = [255, 255, 255, 255, 0, 0, 0, 255]"
proof -
  have h: "list_all byte [255, 255, 255, 255, 0, 0, 0, 255]"
    by (simp add: byte_def)
  have e: "applyPixelFilter [255, 255, 255, 255, 0, 0, 0, 255] ''vibrant''
             = [255, 255, 255, 255, 0, 0, 0, 255]"
    by code_simp
  from filter_channels_in_range[OF h, of "''vibrant''"]
       filter_channels_in_range[OF h, of "''vintage''"] h e
  show ?thesis by blast
qed

subsection \<open>The reference vector of \<open>mono\<close>\<close>

lemma mono_px_ref: "mono_px (200, 100, 50) = (6191 / 50, 6191 / 50, 6191 / 50)"
  by (simp add: mono_px_def clamp_def Let_def)

lemma store_ref: "to_uint8_clamped (6191 / 50) = 124"
  by code_simp

text \<open>
  The result does not hang on the exact arithmetic of the model: any luminance within
  \<open>1/4\<close> of \<open>124.2\<close>, with any contrast factor within \<open>1/100\<close> of \<open>1.1\<close>, is
  stored as \<open>124\<close>.
\<close>

lemma mono_store_robust:
  fixes g c :: rat
  assumes "\<bar>g - 621 / 5\<bar> \<le> 1 / 4" "\<bar>c - 11 / 10\<bar> \<le> 1 / 100"
  shows "to_uint8_clamped (clamp ((g - 128) * c + 128)) = 124"
proof -
  have g: "- (81 / 20) \<le> g - 128" "g - 128 \<le> - (71 / 20)" using assms(1) by linarith+
  have c: "109 / 100 \<le> c" "c \<le> 111 / 100" using assms(2) by linarith+
  have up: "(g - 128) * c \<le> - (71 / 20) * (109 / 100)"
  proof -
    have "(g - 128) * c \<le> (g - 128) * (109 / 100)"
      using g(2) c(1) by (intro mult_left_mono_neg) simp_all
    also have "\<dots> \<le> - (71 / 20) * (109 / 100)" using g(2) by simp
    finally show ?thesis .
  qed
  have lo: "- (81 / 20) * (111 / 100) \<le> (g - 128) * c"
  proof -
    have "(g - 128) * (111 / 100) \<le> (g - 128) * c"
      using g(2) c(2) by (intro mult_left_mono_neg) simp_all
    moreover have "- (81 / 20) * (111 / 100) \<le> (g - 128) * (111 / 100)" using g(1) by simp
    ultimately show ?thesis by linarith
  qed
  define v where "v = (g - 128) * c + 128"
  have v: "247 / 2 < v" "v < 249 / 2" using up lo by (simp_all add: v_def)
  then have cl: "clamp v = v" by (simp add: clamp_def)
  have "123 \<le> \<lfloor>v\<rfloor>" using v(1) by (simp add: le_floor_iff)
  moreover have "\<lfloor>v\<rfloor> < 125" using v(2) by (simp add: floor_less_iff)
  ultimately have fl: "\<lfloor>v\<rfloor> = 123 \<or> \<lfloor>v\<rfloor> = 124" by linarith
  have "to_uint8_clamped v = 124"
    using fl v by (auto simp: to_uint8_clamped_def Let_def)
  with cl show ?thesis unfolding v_def by simp
qed

text \<open>
  Claim C1, as amended. For the pixel \<open>(200, 100, 50)\<close> the luminance is
  \<open>0.299 * 200 + 0.587 * 100 + 0.114 * 50 = 124.2\<close>, the contrast step gives
  \<open>(124.2 - 128) * 1.1 + 128 = 123.82 = 6191 / 50\<close>, which \<open>clamp\<close> leaves alone, and
  the three colour channels are stored as \<open>124\<close>; alpha is kept.
\<close>

theorem mono_reference_vector:
  "mono_px (200, 100, 50) = (6191 / 50, 6191 / 50, 6191 / 50) \<and>
   applyPixelFilter [200, 100, 50, a] ''mono'' = [124, 124, 124, a]"
  by (simp add: applyPixelFilter_def pixel_loop.simps[of _ 0] pixel_loop.simps[of _ 4]
        mono_px_ref store_ref)

text \<open>The output stated by the claim, \<open>(129, 129, 129)\<close>, is not what the filter gives.\<close>

theorem mono_reference_vector_counterexample:
  "applyPixelFilter [200, 100, 50, 255] ''mono'' \<noteq> [129, 129, 129, 255]"
  by code_simp

subsection \<open>Filters without a pixel transform\<close>

text \<open>
  Claim C2. \<open>pastel\<close>, \<open>soft\<close>, \<open>crisp\<close> and \<open>fade\<close> have no case of their own in
  \<open>applyPixelFilter\<close>: the buffer comes back as it was, and so does the canvas of a
  capture, while the preview string of each of them in \<open>FILTER_STYLES\<close> is a filter
  other than \<open>none\<close>.
\<close>

theorem css_only_filters_identity:
  "filterName \<in> {''pastel'', ''soft'', ''crisp'', ''fade''} \<Longrightarrow>
     applyPixelFilter data filterName = data \<and>
     canvas (capture_filter_step flt filterName data) = data \<and>
     (\<exists>css. FILTER_STYLES filterName = Some css \<and> css \<noteq> ''none'')"
  by (auto simp: applyPixelFilter_def applyPixelFilter_faulting_def capture_filter_step_def
                 FILTER_STYLES_def Let_def)

theorem css_only_filters_identity_witness:
  "''pastel'' \<in> {''pastel'', ''soft'', ''crisp'', ''fade''} \<and>
   applyPixelFilter [200, 100, 50, 255] ''pastel'' = [200, 100, 50, 255] \<and>
   FILTER_STYLES ''pastel'' = Some ''saturate(0.7) brightness(1.15) contrast(0.9)''"
proof -
  have m: "''pastel'' \<in> {''pastel'', ''soft'', ''crisp'', ''fade''}" by simp
  from css_only_filters_identity[OF m, of "[200, 100, 50, 255]" NoFault]
  have "applyPixelFilter [200, 100, 50, 255] ''pastel'' = [200, 100, 50, 255]" by simp
  moreover have "FILTER_STYLES ''pastel'' = Some ''saturate(0.7) brightness(1.15) contrast(0.9)''"
    by (simp add: FILTER_STYLES_def)
  ultimately show ?thesis using m by simp
qed

subsection \<open>A capture never keeps a half-filtered frame\<close>


text \<open>Without a fault the loop with fault points is the loop of the source.\<close>

lemma pixel_loop_faulting_None: "pixel_loop_faulting None f i data = Inr (pixel_loop f i data)"
proof (induction f i data rule: pixel_loop.induct)
  case (1 f i data)
  show ?case
    using "1.IH"
    by (subst pixel_loop_faulting.simps, subst pixel_loop.simps) (auto split: prod.splits)
qed


lemma applyPixelFilter_faulting_None:
  "applyPixelFilter_faulting None data n = Inr (applyPixelFilter data n)"
  by (simp add: applyPixelFilter_faulting_def applyPixelFilter_def pixel_loop_faulting_None)





section \<open>Properties of the composition engine\<close>

subsection \<open>The device pixel scale\<close>

lemma dpr_undefined: "exportImage_dpr w None = Fin 1"
  by (simp add: exportImage_dpr_def)

lemma dpr_width_zero: "exportImage_dpr 0 dw = Fin 1"
  by (cases dw; cases "ToNumber dw") (auto simp: exportImage_dpr_def Let_def)

lemma dpr_quotient:
  "0 < w \<Longrightarrow> b \<noteq> 0 \<Longrightarrow> exportImage_dpr w (Some (Fin b)) = Fin (of_nat w / b)"
  by (simp add: exportImage_dpr_def Let_def)

lemma dpr_zero: "0 < w \<Longrightarrow> exportImage_dpr w (Some (Fin 0)) = Infinity True"
  by (simp add: exportImage_dpr_def Let_def)

text \<open>
  Claim C3. The scale is the quotient \<open>width / displayWidth\<close> when that is a non-zero
  number, and it is \<open>1\<close> when \<open>displayWidth\<close> is \<open>undefined\<close> (the lemmas above). When
  \<open>displayWidth\<close> is zero and the base raster has a positive width, the quotient is
  \<open>+Infinity\<close>, which is truthy, so \<open>|| 1\<close> does not apply: with a base canvas of width
  300 (the width of a canvas element that nothing has sized yet) and a display width of
  0 (the initial \<open>canvasDimensions\<close> of the editor) the scale is \<open>+Infinity\<close>, not \<open>1\<close>.
\<close>

theorem dpr_zero_display_width:
  "exportImage_dpr 300 (Some (Fin 0)) = Infinity True \<and>
   exportImage_dpr 300 (Some (Fin 0)) \<noteq> Fin 1"
  by (simp add: exportImage_dpr_def Let_def)

subsection \<open>Brush sizes\<close>

lemma brush_sizes_small_agree:
  "ExportEngine_BRUSH_SIZES ''small'' = DrawTool_BRUSH_SIZES ''small''"
  by (simp add: ExportEngine_BRUSH_SIZES_def DrawTool_BRUSH_SIZES_def)

text \<open>
  Claim C4. The two tables agree on \<open>small\<close> and differ on \<open>medium\<close>: a medium
  stroke is exported, at scale 1, with line width 8, and drawn live with line width 16.
\<close>

theorem brush_sizes_medium_mismatch:
  "ExportEngine_BRUSH_SIZES ''medium'' = Some (Fin 8) \<and>
   DrawTool_BRUSH_SIZES ''medium'' = Some (Fin 16) \<and>
   line_widths (drawStrokes []
      [\<lparr>stroke_id = i, stroke_color = col, stroke_size = ''medium'', stroke_points = [p, q]\<rparr>]
      (Fin 1)) = [Fin 8] \<and>
   line_widths (live_stroke
      \<lparr>stroke_id = i, stroke_color = col, stroke_size = ''medium'', stroke_points = [p, q]\<rparr> [])
      = [Fin 16]"
  by (simp add: ExportEngine_BRUSH_SIZES_def DrawTool_BRUSH_SIZES_def drawStrokes_def
        drawStroke_def live_stroke_def num_or_def table_or_def lineTos_def)

subsection \<open>Order of the layers\<close>

text \<open>
  For a type that is not an inherited name, \<open>order[type] || 0\<close> is the priority of the
  type, and the comparison function compares priorities.
\<close>

lemma order_value:
  "el_type a \<notin> set Object_prototype_keys \<Longrightarrow>
   table_or type_order (el_type a) (Fin 0) = Fin (type_priority a)"
  by (simp add: table_or_def type_order_def type_priority_def)

lemma compare_positive:
  "el_type a \<notin> set Object_prototype_keys \<Longrightarrow> el_type b \<notin> set Object_prototype_keys \<Longrightarrow>
   positive (compare_elements a b) \<longleftrightarrow> type_priority b < type_priority a"
  by (simp add: compare_elements_def order_value jsub_def)

lemma sort_insert_insort:
  "el_type x \<notin> set Object_prototype_keys \<Longrightarrow>
   \<forall>y \<in> set ys. el_type y \<notin> set Object_prototype_keys \<Longrightarrow>
   sort_insert compare_elements x ys = insort_key type_priority x ys"
  by (induction ys) (auto simp: compare_positive)

lemma sortedElements_sort_key:
  "\<forall>e \<in> set els. el_type e \<notin> set Object_prototype_keys \<Longrightarrow>
   sortedElements els = sort_key type_priority els"
proof (induction els)
  case Nil
  show ?case by (simp add: sortedElements_def Array_sort_def)
next
  case (Cons x xs)
  then have xs: "sortedElements xs = sort_key type_priority xs" by simp
  have "sortedElements (x # xs) = sort_insert compare_elements x (sortedElements xs)"
    by (simp add: sortedElements_def Array_sort_def)
  also have "\<dots> = insort_key type_priority x (sort_key type_priority xs)"
    unfolding xs using Cons.prems by (intro sort_insert_insort) auto
  finally show ?case by (simp add: sort_key_def)
qed

lemma known_types_not_inherited:
  "''sticker'' \<notin> set Object_prototype_keys"
  "''emoji'' \<notin> set Object_prototype_keys"
  "''text'' \<notin> set Object_prototype_keys"
  by (simp_all add: Object_prototype_keys_def)

text \<open>
  An element whose type is an inherited name makes the comparison function return
  \<open>NaN\<close>, and the elements around it are then not put in order: a text inserted before
  such an element and a sticker stays below the sticker. The specification's data model
  has the three types \<open>sticker\<close>, \<open>emoji\<close> and \<open>text\<close> only.
\<close>

lemma inherited_type_unsorted:
  "sortedElements [example_text ''#FFFFFF'' ''none'', example_odd_element, example_sticker]
     = [example_text ''#FFFFFF'' ''none'', example_odd_element, example_sticker]"
  by (simp add: sortedElements_def Array_sort_def compare_elements_def table_or_def
        type_order_def jsub_def example_text_def example_odd_element_def example_sticker_def
        Object_prototype_keys_def)

text \<open>A loop whose body only appends to the context appends the bodies' calls in turn.\<close>

lemma fold_append_calls:
  assumes "\<And>x c. f x c = c @ f x []"
  shows "fold f xs c = c @ concat (map (\<lambda>x. f x []) xs)"
proof (induction xs arbitrary: c)
  case Nil
  show ?case by simp
next
  case (Cons x xs)
  have "fold f (x # xs) c = fold f xs (f x c)" by simp
  also have "\<dots> = f x c @ concat (map (\<lambda>x. f x []) xs)" by (rule Cons.IH)
  also have "f x c = c @ f x []" by (rule assms)
  finally show ?case by simp
qed

lemma drawStroke_append: "drawStroke scale s c = c @ drawStroke scale s []"
  by (simp add: drawStroke_def)

lemma drawSticker_append: "drawSticker c e scale = c @ drawSticker [] e scale"
  by (simp add: drawSticker_def Let_def)

lemma drawEmoji_append: "drawEmoji c e scale = c @ drawEmoji [] e scale"
  by (simp add: drawEmoji_def Let_def)

lemma drawText_append: "drawText m c e scale = c @ drawText m [] e scale"
  by (simp add: drawText_def Let_def)

lemma drawElement_append: "drawElement m scale e c = c @ drawElement m scale e []"
  using drawSticker_append[of c e scale] drawEmoji_append[of c e scale]
    drawText_append[of m c e scale]
  by (simp add: drawElement_def)

lemma exportImage_ctx_layers:
  "exportImage_ctx br req =
     [DrawImage_base (Fin 0) (Fin 0)]
     @ concat (map (\<lambda>s. drawStroke (exportImage_dpr (base_width req) (displayWidth req)) s [])
                (req_strokes req))
     @ concat (map (\<lambda>e. drawElement (measureText br)
                           (exportImage_dpr (base_width req) (displayWidth req)) e [])
                (sortedElements (req_elements req)))"
proof -
  let ?scale = "exportImage_dpr (base_width req) (displayWidth req)"
  let ?c0 = "[DrawImage_base (Fin 0) (Fin 0)]"
  have s: "(if length (req_strokes req) > 0 then drawStrokes ?c0 (req_strokes req) ?scale else ?c0)
         = ?c0 @ concat (map (\<lambda>s. drawStroke ?scale s []) (req_strokes req))"
    using fold_append_calls[of "drawStroke ?scale" "req_strokes req" ?c0, OF drawStroke_append]
    by (simp add: drawStrokes_def)
  show ?thesis
    unfolding exportImage_ctx_def Let_def s
    using fold_append_calls[of "drawElement (measureText br) ?scale", OF drawElement_append]
    by simp
qed

text \<open>
  Claim C5. The calls on the export canvas are: the base raster; then the calls of each
  stroke, in the order of the strokes; then the calls of each element, in the order of
  \<open>sortedElements\<close>. For a request whose elements have types that are not inherited
  names (the three types of the data model are not), that list is sorted by type
  priority, has the same elements as the input, and keeps elements of equal priority in
  their input order. For a text, a sticker and an emoji inserted in this order, the order
  drawn is sticker, emoji, text.
\<close>

theorem export_z_order:
  assumes "\<forall>e \<in> set (req_elements req). el_type e \<notin> set Object_prototype_keys"
  shows "exportImage_ctx br req =
     [DrawImage_base (Fin 0) (Fin 0)]
     @ concat (map (\<lambda>s. drawStroke (exportImage_dpr (base_width req) (displayWidth req)) s [])
                (req_strokes req))
     @ concat (map (\<lambda>e. drawElement (measureText br)
                           (exportImage_dpr (base_width req) (displayWidth req)) e [])
                (sortedElements (req_elements req)))
   \<and> sorted (map type_priority (sortedElements (req_elements req)))
   \<and> mset (sortedElements (req_elements req)) = mset (req_elements req)
   \<and> (\<forall>k. filter (\<lambda>e. type_priority e = k) (sortedElements (req_elements req))
           = filter (\<lambda>e. type_priority e = k) (req_elements req))
   \<and> (el_type t = ''text'' \<and> el_type s = ''sticker'' \<and> el_type e = ''emoji'' \<longrightarrow>
        sortedElements [t, s, e] = [s, e, t] \<and>
        concat (map (\<lambda>e. drawElement m scale e []) (sortedElements [t, s, e]))
          = drawSticker [] s scale @ drawEmoji [] e scale @ drawText m [] t scale)"
proof (intro conjI allI impI)
  note sk = sortedElements_sort_key[OF assms]
  show "exportImage_ctx br req =
     [DrawImage_base (Fin 0) (Fin 0)]
     @ concat (map (\<lambda>s. drawStroke (exportImage_dpr (base_width req) (displayWidth req)) s [])
                (req_strokes req))
     @ concat (map (\<lambda>e. drawElement (measureText br)
                           (exportImage_dpr (base_width req) (displayWidth req)) e [])
                (sortedElements (req_elements req)))"
    by (rule exportImage_ctx_layers)
  show "sorted (map type_priority (sortedElements (req_elements req)))"
    by (simp add: sk)
  show "mset (sortedElements (req_elements req)) = mset (req_elements req)"
    by (simp add: sk)
  show "filter (\<lambda>e. type_priority e = k) (sortedElements (req_elements req))
          = filter (\<lambda>e. type_priority e = k) (req_elements req)" for k
    by (simp add: sk sort_key_stable)
next
  assume ty: "el_type t = ''text'' \<and> el_type s = ''sticker'' \<and> el_type e = ''emoji''"
  then have "\<forall>x \<in> set [t, s, e]. el_type x \<notin> set Object_prototype_keys"
    by (simp add: known_types_not_inherited)
  from sortedElements_sort_key[OF this] ty
  show o: "sortedElements [t, s, e] = [s, e, t]"
    by (simp add: type_priority_def)
  show "concat (map (\<lambda>e. drawElement m scale e []) (sortedElements [t, s, e]))
          = drawSticker [] s scale @ drawEmoji [] e scale @ drawText m [] t scale"
    unfolding o using ty by (simp add: drawElement_def)
qed

text \<open>A request with a text, a sticker and an emoji, inserted in this order.\<close>

theorem export_z_order_witness:
  "req_elements layered_request
     = [example_text ''#FFFFFF'' ''none'', example_sticker, example_emoji] \<and>
   el_type (example_text ''#FFFFFF'' ''none'') \<notin> set Object_prototype_keys \<and>
   el_type example_sticker \<notin> set Object_prototype_keys \<and>
   el_type example_emoji \<notin> set Object_prototype_keys \<and>
   el_type (example_text ''#FFFFFF'' ''none'') = ''text'' \<and>
   el_type example_sticker = ''sticker'' \<and>
   el_type example_emoji = ''emoji'' \<and>
   sortedElements (req_elements layered_request)
     = [example_sticker, example_emoji, example_text ''#FFFFFF'' ''none''] \<and>
   sorted (map type_priority (sortedElements (req_elements layered_request)))"
proof -
  have ty: "el_type (example_text ''#FFFFFF'' ''none'') = ''text'' \<and>
            el_type example_sticker = ''sticker'' \<and> el_type example_emoji = ''emoji''"
    by (simp add: example_text_def example_sticker_def example_emoji_def)
  have els: "req_elements layered_request
               = [example_text ''#FFFFFF'' ''none'', example_sticker, example_emoji]"
    by (simp add: layered_request_def)
  have h: "\<forall>e \<in> set (req_elements layered_request). el_type e \<notin> set Object_prototype_keys"
    using ty by (simp add: els known_types_not_inherited)
  note T = export_z_order[OF h, where t = "example_text ''#FFFFFF'' ''none''"
                            and s = example_sticker and e = example_emoji]
  from T ty have o: "sortedElements (req_elements layered_request)
     = [example_sticker, example_emoji, example_text ''#FFFFFF'' ''none'']"
    unfolding els by blast
  from T have "sorted (map type_priority (sortedElements (req_elements layered_request)))"
    by blast
  moreover have "el_type (example_text ''#FFFFFF'' ''none'') \<notin> set Object_prototype_keys"
    "el_type example_sticker \<notin> set Object_prototype_keys"
    "el_type example_emoji \<notin> set Object_prototype_keys"
    using ty by (simp_all add: known_types_not_inherited)
  ultimately show ?thesis using els ty o by (intro conjI) simp_all
qed

subsection \<open>Ink of decorated text\<close>

text \<open>
  Claim C8. For a text element whose style mode is \<open>background\<close> or \<open>highlight\<close>,
  \<open>drawText\<close> makes one \<open>fillText\<close> call, and the fill style in force at that call is
  \<open>#000\<close> (black) exactly when the colour of the style is \<open>#FFFFFF\<close> or \<open>#FFCC00\<close>;
  for every other colour, a missing one included, it is \<open>#FFF\<close> (white).
\<close>

theorem text_ink_contrast:
  assumes "el_data el = Some d" "d_style d = Some st"
    and "st_styleMode st = Some ''background'' \<or> st_styleMode st = Some ''highlight''"
  shows "fill_inks cur stk (drawText m [] el scale) =
           [(str_or (d_text d) [],
             if st_color st = Some ''#FFFFFF'' \<or> st_color st = Some ''#FFCC00''
             then ''#000'' else ''#FFF'')]"
proof -
  have col:
    "(str_or (st_color st) ''#fff'' = ''#FFFFFF'' \<or> str_or (st_color st) ''#fff'' = ''#FFCC00'')
       \<longleftrightarrow> (st_color st = Some ''#FFFFFF'' \<or> st_color st = Some ''#FFCC00'')"
    by (cases "st_color st") auto
  from assms(3) show ?thesis
  proof
    assume "st_styleMode st = Some ''background''"
    then show ?thesis using assms(1,2) col by (simp add: drawText_def Let_def)
  next
    assume "st_styleMode st = Some ''highlight''"
    then show ?thesis using assms(1,2) col by (simp add: drawText_def Let_def)
  qed
qed

theorem text_ink_contrast_witness:
  "fill_inks ''#000000'' [] (drawText (measureText working_browser) []
      (example_text ''#FFCC00'' ''background'') (Fin 1)) = [(''Hi'', ''#000'')] \<and>
   fill_inks ''#000000'' [] (drawText (measureText working_browser) []
      (example_text ''#FF3B30'' ''highlight'') (Fin 1)) = [(''Hi'', ''#FFF'')]"
proof -
  have a: "fill_inks ''#000000'' [] (drawText (measureText working_browser) []
      (example_text ''#FFCC00'' ''background'') (Fin 1)) = [(''Hi'', ''#000'')]"
    using text_ink_contrast[of "example_text ''#FFCC00'' ''background''" _ _
            "''#000000''" "[]" "measureText working_browser" "Fin 1"]
    by (simp add: example_text_def)
  have b: "fill_inks ''#000000'' [] (drawText (measureText working_browser) []
      (example_text ''#FF3B30'' ''highlight'') (Fin 1)) = [(''Hi'', ''#FFF'')]"
    using text_ink_contrast[of "example_text ''#FF3B30'' ''highlight''" _ _
            "''#000000''" "[]" "measureText working_browser" "Fin 1"]
    by (simp add: example_text_def)
  from a b show ?thesis by simp
qed

subsection \<open>Strokes of fewer than two points\<close>

lemma butlast_all: "list_all P xs \<Longrightarrow> list_all P (butlast xs)"
  by (induction xs) auto

lemma draw_step_renderable:
  "list_all renderable (dt_strokes s) \<Longrightarrow> list_all renderable (dt_strokes (draw_step ev s))"
proof (cases ev)
  case (DrawStart isActive touches pos now)
  assume "list_all renderable (dt_strokes s)"
  then show ?thesis using DrawStart
    by (simp add: handleDrawStart_def split: option.splits)
next
  case (DrawMove isActive touches pos)
  assume "list_all renderable (dt_strokes s)"
  then show ?thesis using DrawMove
    by (simp add: handleDrawMove_def split: option.splits)
next
  case DrawEnd
  assume "list_all renderable (dt_strokes s)"
  then show ?thesis using DrawEnd
    by (simp add: handleDrawEnd_def renderable_def Let_def split: option.splits)
next
  case Undo
  assume "list_all renderable (dt_strokes s)"
  then show ?thesis using Undo by (simp add: handleUndo_def butlast_all)
next
  case Clear
  then show ?thesis by (simp add: handleClear_def)
next
  case ToggleBrushSize
  assume "list_all renderable (dt_strokes s)"
  then show ?thesis using ToggleBrushSize by (simp add: handleToggleBrushSize_def)
next
  case (SetStrokeColor c)
  assume "list_all renderable (dt_strokes s)"
  then show ?thesis using SetStrokeColor by simp
next
  case Done
  assume "list_all renderable (dt_strokes s)"
  then show ?thesis using Done
    by (simp add: handleDone_def renderable_def Let_def split: option.splits)
qed

lemma fold_draw_step_renderable:
  "list_all renderable (dt_strokes s) \<Longrightarrow>
   list_all renderable (dt_strokes (fold draw_step evs s))"
  by (induction evs arbitrary: s) (simp_all add: draw_step_renderable)

lemma draw_run_renderable: "list_all renderable (dt_strokes (draw_run evs))"
  unfolding draw_run_def
  by (rule fold_draw_step_renderable) (simp add: draw_tool_init_def)

lemma live_stroke_skip: "\<not> renderable st \<Longrightarrow> live_stroke st c = c"
  by (simp add: live_stroke_def renderable_def)

lemma concat_map_filter_if:
  "concat (map (\<lambda>x. if P x then f x else []) xs) = concat (map f (filter P xs))"
  by (induction xs) simp_all

text \<open>
  The line width that the export gives a size category: the entry of the table; \<open>NaN\<close>
  for an inherited name; the entry of \<open>small\<close> for any other name.
\<close>

lemma export_width:
  "table_or ExportEngine_BRUSH_SIZES sz (num_or (ExportEngine_BRUSH_SIZES ''small'') NaN) =
     (if sz = ''small'' then Fin 4
      else if sz = ''medium'' then Fin 8
      else if sz \<in> set Object_prototype_keys then NaN
      else Fin 4)"
  by (simp add: table_or_def ExportEngine_BRUSH_SIZES_def num_or_def)

lemma drawStroke_calls:
  "drawStroke scale st [] =
     (if renderable st then
        [BeginPath,
         Set_strokeStyle (stroke_color st),
         Set_lineWidth
           (jmul (if stroke_size st = ''small'' then Fin 4
                  else if stroke_size st = ''medium'' then Fin 8
                  else if stroke_size st \<in> set Object_prototype_keys then NaN
                  else Fin 4) scale),
         Set_lineCap ''round'',
         Set_lineJoin ''round'',
         MoveTo (jmul (pt_x (hd (stroke_points st))) scale)
                (jmul (pt_y (hd (stroke_points st))) scale)]
        @ map (\<lambda>p. LineTo (jmul (pt_x p) scale) (jmul (pt_y p) scale)) (tl (stroke_points st))
        @ [Stroke]
      else [])"
proof (cases "renderable st")
  case False
  then show ?thesis by (simp add: drawStroke_def renderable_def)
next
  case True
  then have ne: "stroke_points st \<noteq> []" by (auto simp: renderable_def)
  have h: "stroke_points st ! 0 = hd (stroke_points st)" using ne by (simp add: hd_conv_nth)
  have t: "drop 1 (stroke_points st) = tl (stroke_points st)" by (simp add: drop_Suc)
  show ?thesis
    using True unfolding drawStroke_def export_width h t
    by (simp add: renderable_def lineTos_def)
qed

lemma drawStrokes_calls:
  "drawStrokes c strokes scale =
     c @ concat (map (\<lambda>st. drawStroke scale st []) (filter renderable strokes))"
proof -
  have "drawStrokes c strokes scale = c @ concat (map (\<lambda>st. drawStroke scale st []) strokes)"
    unfolding drawStrokes_def
    by (rule fold_append_calls) (rule drawStroke_append)
  also have "concat (map (\<lambda>st. drawStroke scale st []) strokes)
      = concat (map (\<lambda>st. if renderable st then drawStroke scale st [] else []) strokes)"
    by (rule arg_cong[where f = concat], rule map_cong) (simp_all add: drawStroke_calls)
  also have "\<dots> = concat (map (\<lambda>st. drawStroke scale st []) (filter renderable strokes))"
    by (rule concat_map_filter_if)
  finally show ?thesis .
qed

text \<open>
  Claim C9. After any run of events of the drawing tool, started with no strokes, every
  saved stroke has at least two points. The export renderer \<open>drawStrokes\<close> adds to the
  canvas, for each stroke of at least two points and in the order of the list, one path:
  \<open>beginPath\<close>, the stroke's colour, its line width, round caps and joins, a \<open>moveTo\<close>
  to the first point, a \<open>lineTo\<close> to each further point, and \<open>stroke\<close>; for a stroke of
  fewer than two points it adds nothing. So does a whole export without elements, after
  the base raster. A stroke of fewer than two points is skipped by the live canvas too,
  and a stroke of exactly two points gives exactly one line segment.
\<close>

theorem short_strokes_discarded:
  "(let path = (\<lambda>scale st.
          [BeginPath,
           Set_strokeStyle (stroke_color st),
           Set_lineWidth
             (jmul (if stroke_size st = ''small'' then Fin 4
                    else if stroke_size st = ''medium'' then Fin 8
                    else if stroke_size st \<in> set Object_prototype_keys then NaN
                    else Fin 4) scale),
           Set_lineCap ''round'',
           Set_lineJoin ''round'',
           MoveTo (jmul (pt_x (hd (stroke_points st))) scale)
                  (jmul (pt_y (hd (stroke_points st))) scale)]
          @ map (\<lambda>p. LineTo (jmul (pt_x p) scale) (jmul (pt_y p) scale)) (tl (stroke_points st))
          @ [Stroke])
    in
      list_all renderable (dt_strokes (draw_run evs)) \<and>
      drawStrokes c strokes scale = c @ concat (map (path scale) (filter renderable strokes)) \<and>
      (req_elements req = [] \<longrightarrow>
         exportImage_ctx br req =
           DrawImage_base (Fin 0) (Fin 0)
           # concat (map (path (exportImage_dpr (base_width req) (displayWidth req)))
                       (filter renderable (req_strokes req)))) \<and>
      (\<not> renderable st \<longrightarrow>
         drawStrokes c [st] scale = c \<and> drawStroke scale st c = c \<and> live_stroke st c = c) \<and>
      (stroke_points st = [p, q] \<longrightarrow>
         drawStrokes c [st] scale =
           c @ [BeginPath,
                Set_strokeStyle (stroke_color st),
                Set_lineWidth
                  (jmul (if stroke_size st = ''small'' then Fin 4
                         else if stroke_size st = ''medium'' then Fin 8
                         else if stroke_size st \<in> set Object_prototype_keys then NaN
                         else Fin 4) scale),
                Set_lineCap ''round'',
                Set_lineJoin ''round'',
                MoveTo (jmul (pt_x p) scale) (jmul (pt_y p) scale),
                LineTo (jmul (pt_x q) scale) (jmul (pt_y q) scale),
                Stroke]))"
proof -
  have paths: "concat (map (\<lambda>st. drawStroke sc st []) (filter renderable ss))
      = concat (map (\<lambda>st.
          [BeginPath,
           Set_strokeStyle (stroke_color st),
           Set_lineWidth
             (jmul (if stroke_size st = ''small'' then Fin 4
                    else if stroke_size st = ''medium'' then Fin 8
                    else if stroke_size st \<in> set Object_prototype_keys then NaN
                    else Fin 4) sc),
           Set_lineCap ''round'',
           Set_lineJoin ''round'',
           MoveTo (jmul (pt_x (hd (stroke_points st))) sc)
                  (jmul (pt_y (hd (stroke_points st))) sc)]
          @ map (\<lambda>p. LineTo (jmul (pt_x p) sc) (jmul (pt_y p) sc)) (tl (stroke_points st))
          @ [Stroke]) (filter renderable ss))" for sc ss
    by (rule arg_cong[where f = concat], rule map_cong) (simp_all add: drawStroke_calls)
  have all: "drawStrokes c strokes scale
      = c @ concat (map (\<lambda>st. drawStroke scale st []) (filter renderable strokes))"
    by (rule drawStrokes_calls)
  have export: "exportImage_ctx br req =
      DrawImage_base (Fin 0) (Fin 0)
      # concat (map (\<lambda>st. drawStroke (exportImage_dpr (base_width req) (displayWidth req)) st [])
                  (filter renderable (req_strokes req)))"
    if "req_elements req = []"
    using that drawStrokes_calls[of "[DrawImage_base (Fin 0) (Fin 0)]" "req_strokes req"]
    by (simp add: exportImage_ctx_def Let_def sortedElements_def Array_sort_def drawStrokes_def)
  have skip: "drawStrokes c [st] scale = c \<and> drawStroke scale st c = c \<and> live_stroke st c = c"
    if "\<not> renderable st"
    using that by (simp add: drawStrokes_def drawStroke_def live_stroke_def renderable_def)
  have seg: "drawStrokes c [st] scale =
           c @ [BeginPath,
                Set_strokeStyle (stroke_color st),
                Set_lineWidth
                  (jmul (if stroke_size st = ''small'' then Fin 4
                         else if stroke_size st = ''medium'' then Fin 8
                         else if stroke_size st \<in> set Object_prototype_keys then NaN
                         else Fin 4) scale),
                Set_lineCap ''round'',
                Set_lineJoin ''round'',
                MoveTo (jmul (pt_x p) scale) (jmul (pt_y p) scale),
                LineTo (jmul (pt_x q) scale) (jmul (pt_y q) scale),
                Stroke]"
    if "stroke_points st = [p, q]"
  proof -
    have "renderable st" using that by (simp add: renderable_def)
    then show ?thesis
      using that drawStrokes_calls[of c "[st]" scale] by (simp add: drawStroke_calls)
  qed
  note all' = all[unfolded paths]
  have export': "req_elements req = [] \<longrightarrow>
         exportImage_ctx br req =
           DrawImage_base (Fin 0) (Fin 0)
           # concat (map (\<lambda>st.
          [BeginPath,
           Set_strokeStyle (stroke_color st),
           Set_lineWidth
             (jmul (if stroke_size st = ''small'' then Fin 4
                    else if stroke_size st = ''medium'' then Fin 8
                    else if stroke_size st \<in> set Object_prototype_keys then NaN
                    else Fin 4) (exportImage_dpr (base_width req) (displayWidth req))),
           Set_lineCap ''round'',
           Set_lineJoin ''round'',
           MoveTo (jmul (pt_x (hd (stroke_points st)))
                     (exportImage_dpr (base_width req) (displayWidth req)))
                  (jmul (pt_y (hd (stroke_points st)))
                     (exportImage_dpr (base_width req) (displayWidth req)))]
          @ map (\<lambda>p. LineTo (jmul (pt_x p) (exportImage_dpr (base_width req) (displayWidth req)))
                           (jmul (pt_y p) (exportImage_dpr (base_width req) (displayWidth req))))
              (tl (stroke_points st))
          @ [Stroke]) (filter renderable (req_strokes req)))"
    using export unfolding paths by blast
  show ?thesis
    unfolding Let_def
    by (intro conjI impI draw_run_renderable all' export'[rule_format] skip seg) assumption+
qed

text \<open>
  A tap (one point) followed by a drag (two points): only the drag is saved. Of a
  one-point stroke and the diagonal of the example, the export draws the diagonal only.
\<close>

theorem short_strokes_discarded_witness:
  "map stroke_id (dt_strokes (draw_run
      [DrawStart True None (Some \<lparr>pt_x = Fin 50, pt_y = Fin 50\<rparr>) ''1'',
       DrawEnd,
       DrawStart True None (Some \<lparr>pt_x = Fin 10, pt_y = Fin 10\<rparr>) ''2'',
       DrawMove True None (Some \<lparr>pt_x = Fin 90, pt_y = Fin 90\<rparr>),
       DrawEnd])) = [''stroke-2''] \<and>
   list_all renderable (dt_strokes (draw_run
      [DrawStart True None (Some \<lparr>pt_x = Fin 50, pt_y = Fin 50\<rparr>) ''1'',
       DrawEnd,
       DrawStart True None (Some \<lparr>pt_x = Fin 10, pt_y = Fin 10\<rparr>) ''2'',
       DrawMove True None (Some \<lparr>pt_x = Fin 90, pt_y = Fin 90\<rparr>),
       DrawEnd])) \<and>
   \<not> renderable example_dot \<and>
   drawStrokes [] [example_dot] (Fin 1) = [] \<and>
   stroke_points example_stroke = [\<lparr>pt_x = Fin 10, pt_y = Fin 10\<rparr>, \<lparr>pt_x = Fin 90, pt_y = Fin 90\<rparr>] \<and>
   drawStrokes [] [example_stroke] (Fin 1) =
     [BeginPath, Set_strokeStyle ''#FF0000'', Set_lineWidth (Fin 4), Set_lineCap ''round'',
      Set_lineJoin ''round'', MoveTo (Fin 10) (Fin 10), LineTo (Fin 90) (Fin 90), Stroke] \<and>
   req_elements strokes_only_request = [] \<and>
   exportImage_ctx working_browser strokes_only_request =
     [DrawImage_base (Fin 0) (Fin 0),
      BeginPath, Set_strokeStyle ''#FF0000'', Set_lineWidth (Fin 4), Set_lineCap ''round'',
      Set_lineJoin ''round'', MoveTo (Fin 10) (Fin 10), LineTo (Fin 90) (Fin 90), Stroke]"
proof -
  let ?evs = "[DrawStart True None (Some \<lparr>pt_x = Fin 50, pt_y = Fin 50\<rparr>) ''1'',
       DrawEnd,
       DrawStart True None (Some \<lparr>pt_x = Fin 10, pt_y = Fin 10\<rparr>) ''2'',
       DrawMove True None (Some \<lparr>pt_x = Fin 90, pt_y = Fin 90\<rparr>),
       DrawEnd]"
  note T = short_strokes_discarded[where evs = ?evs and c = "[]" and strokes = "[]"
             and scale = "Fin 1" and req = strokes_only_request and br = working_browser,
             unfolded Let_def]
  have ids: "map stroke_id (dt_strokes (draw_run ?evs)) = [''stroke-2'']"
    by (simp add: draw_run_def draw_tool_init_def handleDrawStart_def handleDrawMove_def
          handleDrawEnd_def multi_touch_def Let_def)
  have inv: "list_all renderable (dt_strokes (draw_run ?evs))"
    by (rule T[THEN conjunct1])
  have nr: "\<not> renderable example_dot"
    by (simp add: renderable_def example_dot_def)
  have skip: "drawStrokes [] [example_dot] (Fin 1) = []"
    by (rule T[where st = example_dot, THEN conjunct2, THEN conjunct2, THEN conjunct2,
                THEN conjunct1, rule_format, OF nr, THEN conjunct1])
  have pts: "stroke_points example_stroke
               = [\<lparr>pt_x = Fin 10, pt_y = Fin 10\<rparr>, \<lparr>pt_x = Fin 90, pt_y = Fin 90\<rparr>]"
    by (simp add: example_stroke_def)
  note seg0 = T[where st = example_stroke, THEN conjunct2, THEN conjunct2, THEN conjunct2,
                THEN conjunct2, rule_format, OF pts]
  have seg: "drawStrokes [] [example_stroke] (Fin 1) =
     [BeginPath, Set_strokeStyle ''#FF0000'', Set_lineWidth (Fin 4), Set_lineCap ''round'',
      Set_lineJoin ''round'', MoveTo (Fin 10) (Fin 10), LineTo (Fin 90) (Fin 90), Stroke]"
    unfolding seg0 by (simp add: example_stroke_def)
  have ne: "req_elements strokes_only_request = []"
    by (simp add: strokes_only_request_def)
  have r: "renderable example_stroke"
    by (simp add: renderable_def example_stroke_def)
  have d: "exportImage_dpr (base_width strokes_only_request) (displayWidth strokes_only_request)
             = Fin 1"
    by (simp add: strokes_only_request_def exportImage_dpr_def Let_def)
  have f: "filter renderable (req_strokes strokes_only_request) = [example_stroke]"
    using nr r by (simp add: strokes_only_request_def)
  note ex0 = T[THEN conjunct2, THEN conjunct2, THEN conjunct1, rule_format, OF ne,
               unfolded d f]
  have ex: "exportImage_ctx working_browser strokes_only_request =
     [DrawImage_base (Fin 0) (Fin 0),
      BeginPath, Set_strokeStyle ''#FF0000'', Set_lineWidth (Fin 4), Set_lineCap ''round'',
      Set_lineJoin ''round'', MoveTo (Fin 10) (Fin 10), LineTo (Fin 90) (Fin 90), Stroke]"
    unfolding ex0 by (simp add: example_stroke_def)
  from ids inv nr skip pts seg ne ex show ?thesis by (intro conjI)
qed

subsection \<open>Settlement of the export\<close>





end
